theory Spec2Isabelle
  imports Complex_Main "HOL-Library.AList"
begin

section \<open>JavaScript values, objects and responses\<close>

text \<open>
  The values that flow through \<^verbatim>\<open>src/index.js\<close>: JSON values of a request body, the
  value \<^verbatim>\<open>undefined\<close> that a missing property reads as, and the sentinel returned by
  \<^verbatim>\<open>admin.firestore.FieldValue.serverTimestamp()\<close>. An object is a finite map from
  property names to values; a property can be present and bound to \<^verbatim>\<open>undefined\<close>
  (\<open>Some JUndefined\<close>), which is not the same as being absent (\<open>None\<close>).
  \<open>JTimestamp\<close> is a time as a store hands it back on a read.
\<close>

datatype jsval =
    JUndefined
  | JNull
  | JBool bool
  | JNum real
  | JStr string
  | JServerTimestamp
  | JTimestamp nat
  | JArr "jsval list"
  | JObj "string \<Rightarrow> jsval option"

type_synonym jsobj = "string \<Rightarrow> jsval option"

text \<open>\<^verbatim>\<open>!v\<close> is true exactly for the falsy values; \<open>truthy v\<close> is \<^verbatim>\<open>!!v\<close>.\<close>

fun truthy :: "jsval \<Rightarrow> bool" where
  "truthy JUndefined = False"
| "truthy JNull = False"
| "truthy (JBool b) = b"
| "truthy (JNum n) = (n \<noteq> 0)"
| "truthy (JStr s) = (s \<noteq> [])"
| "truthy JServerTimestamp = True"
| "truthy (JTimestamp t) = True"
| "truthy (JArr xs) = True"
| "truthy (JObj obj) = True"

text \<open>\<^verbatim>\<open>v !== undefined\<close>\<close>

fun defined :: "jsval \<Rightarrow> bool" where
  "defined JUndefined = False"
| "defined v = True"

text \<open>
  Destructuring \<^verbatim>\<open>const { k } = obj\<close> reads property \<open>k\<close>, \<^verbatim>\<open>undefined\<close> when it is
  absent; \<^verbatim>\<open>const { k = d } = obj\<close> takes the default \<open>d\<close> when the property reads as
  \<^verbatim>\<open>undefined\<close>.
\<close>

definition read_prop :: "jsobj \<Rightarrow> string \<Rightarrow> jsval" where
  "read_prop obj k = (case obj k of None \<Rightarrow> JUndefined | Some v \<Rightarrow> v)"

definition read_default :: "jsobj \<Rightarrow> string \<Rightarrow> jsval \<Rightarrow> jsval" where
  "read_default obj k d = (if defined (read_prop obj k) then read_prop obj k else d)"

text \<open>
  The outcome of a handler is what it hands to \<^verbatim>\<open>res\<close>: the status code
  (\<^verbatim>\<open>res.json\<close> alone leaves it at 200) and the object given to \<^verbatim>\<open>res.json\<close>.
\<close>

record response =
  status :: nat
  body :: jsval

definition json :: "nat \<Rightarrow> jsobj \<Rightarrow> response" where
  "json code obj = \<lparr>status = code, body = JObj obj\<rparr>"

section \<open>The platform SDK as a dependency\<close>

text \<open>
  The handlers reach the document store, the identity provider and the messaging service
  only through \<^verbatim>\<open>admin\<close>. Each awaited call runs in a world \<open>'w\<close> (whatever state the
  platform has), either raises an exception, of which the handlers read only
  \<^verbatim>\<open>error.message\<close> (\<open>Inl message\<close>), or resolves with a value (\<open>Inr value\<close>), and leaves
  a world behind. The handlers are written against any such client.
\<close>

type_synonym ('a, 'w) awaited = "'w \<Rightarrow> (string + 'a) \<times> 'w"

text \<open>
  A document snapshot: its identifier and \<^verbatim>\<open>doc.data()\<close>, which is \<^verbatim>\<open>undefined\<close>
  (\<open>None\<close>) when the document does not exist; \<^verbatim>\<open>doc.exists\<close> says which.
\<close>

record docsnap =
  snap_id :: string
  snap_data :: "jsobj option"

definition snap_exists :: "docsnap \<Rightarrow> bool" where
  "snap_exists doc = (snap_data doc \<noteq> None)"

record 'w admin =
  fs_limit_get :: "string \<Rightarrow> nat \<Rightarrow> (docsnap list, 'w) awaited"
  fs_add :: "string \<Rightarrow> jsobj \<Rightarrow> (string, 'w) awaited"
  fs_doc_get :: "string \<Rightarrow> string \<Rightarrow> (docsnap, 'w) awaited"
  fs_doc_update :: "string \<Rightarrow> string \<Rightarrow> jsobj \<Rightarrow> (unit, 'w) awaited"
  fs_doc_delete :: "string \<Rightarrow> string \<Rightarrow> (unit, 'w) awaited"
  auth_createUser :: "jsobj \<Rightarrow> (jsobj, 'w) awaited"
  messaging_send :: "jsobj \<Rightarrow> (string, 'w) awaited"

text \<open>
  \<^verbatim>\<open>{ id: doc.id, ...doc.data() }\<close>: the spread comes after \<open>id\<close>, so a property of the
  data named \<open>id\<close> replaces the identifier; spreading \<^verbatim>\<open>undefined\<close> adds nothing.
\<close>

definition spread :: "jsobj option \<Rightarrow> jsobj" where
  "spread d = (case d of None \<Rightarrow> Map.empty | Some obj \<Rightarrow> obj)"

definition with_id :: "docsnap \<Rightarrow> jsobj" where
  "with_id doc = [''id'' \<mapsto> JStr (snap_id doc)] ++ spread (snap_data doc)"

definition error_body :: "string \<Rightarrow> jsobj" where
  "error_body msg = [''error'' \<mapsto> JStr msg]"

section \<open>The HTTP handlers\<close>

text \<open>
  A handler takes the client, what the route reads of the request, and the world, and
  returns the response with the world the client calls left. \<open>b\<close> is \<^verbatim>\<open>req.body\<close> as
  \<^verbatim>\<open>express.json()\<close> leaves it, an object; \<open>i\<close> is \<^verbatim>\<open>req.params.id\<close>. The whole body of every
  handler is inside \<^verbatim>\<open>try\<close>, so an exception of an awaited call ends it in the
  \<^verbatim>\<open>catch\<close>: status 500 with \<^verbatim>\<open>error.message\<close>.
\<close>

text \<open>
  \<^verbatim>\<open>app.get('/health')\<close>; \<open>now\<close> is what \<^verbatim>\<open>new Date().toISOString()\<close> reads when the request
  is handled. The route makes no client call.
\<close>

definition get_health :: "string \<Rightarrow> 'w \<Rightarrow> response \<times> 'w" where
  "get_health now w =
     (json 200 [''status'' \<mapsto> JStr ''healthy'',
                ''timestamp'' \<mapsto> JStr now,
                ''service'' \<mapsto> JStr ''firebase-functions-api''], w)"

text \<open>\<^verbatim>\<open>app.get('/users')\<close> and \<^verbatim>\<open>app.get('/todos')\<close>\<close>

definition get_users :: "'w admin \<Rightarrow> 'w \<Rightarrow> response \<times> 'w" where
  "get_users sdk w =
     (case fs_limit_get sdk ''users'' 50 w of
        (Inl msg, w') \<Rightarrow> (json 500 (error_body msg), w')
      | (Inr usersSnapshot, w') \<Rightarrow>
          (json 200 [''users'' \<mapsto> JArr (map (\<lambda>doc. JObj (with_id doc)) usersSnapshot)], w'))"

definition get_todos :: "'w admin \<Rightarrow> 'w \<Rightarrow> response \<times> 'w" where
  "get_todos sdk w =
     (case fs_limit_get sdk ''todos'' 50 w of
        (Inl msg, w') \<Rightarrow> (json 500 (error_body msg), w')
      | (Inr todosSnapshot, w') \<Rightarrow>
          (json 200 [''todos'' \<mapsto> JArr (map (\<lambda>doc. JObj (with_id doc)) todosSnapshot)], w'))"

text \<open>\<^verbatim>\<open>app.post('/users')\<close>; \<open>userData\<close> is the local constant of that name.\<close>

definition userData :: "jsobj \<Rightarrow> jsobj" where
  "userData b =
     [''name'' \<mapsto> read_prop b ''name'',
      ''email'' \<mapsto> read_prop b ''email'',
      ''role'' \<mapsto> read_default b ''role'' (JStr ''user''),
      ''createdAt'' \<mapsto> JServerTimestamp,
      ''updatedAt'' \<mapsto> JServerTimestamp]"

definition post_users :: "'w admin \<Rightarrow> jsobj \<Rightarrow> 'w \<Rightarrow> response \<times> 'w" where
  "post_users sdk b w =
     (if \<not> truthy (read_prop b ''name'') \<or> \<not> truthy (read_prop b ''email'')
      then (json 400 (error_body ''Name and email are required''), w)
      else (case fs_add sdk ''users'' (userData b) w of
              (Inl msg, w') \<Rightarrow> (json 500 (error_body msg), w')
            | (Inr docRef_id, w') \<Rightarrow>
                (json 201 ([''id'' \<mapsto> JStr docRef_id] ++ userData b), w')))"

text \<open>\<^verbatim>\<open>app.get('/users/:id')\<close>\<close>

definition get_user :: "'w admin \<Rightarrow> string \<Rightarrow> 'w \<Rightarrow> response \<times> 'w" where
  "get_user sdk i w =
     (case fs_doc_get sdk ''users'' i w of
        (Inl msg, w') \<Rightarrow> (json 500 (error_body msg), w')
      | (Inr doc, w') \<Rightarrow>
          (if \<not> snap_exists doc then (json 404 (error_body ''User not found''), w')
           else (json 200 (with_id doc), w')))"

text \<open>\<^verbatim>\<open>app.post('/todos')\<close>; \<open>todoData\<close> is the local constant of that name.\<close>

definition todoData :: "jsobj \<Rightarrow> jsobj" where
  "todoData b =
     [''title'' \<mapsto> read_prop b ''title'',
      ''description'' \<mapsto> read_prop b ''description'',
      ''completed'' \<mapsto> read_default b ''completed'' (JBool False),
      ''createdAt'' \<mapsto> JServerTimestamp,
      ''updatedAt'' \<mapsto> JServerTimestamp]"

definition post_todos :: "'w admin \<Rightarrow> jsobj \<Rightarrow> 'w \<Rightarrow> response \<times> 'w" where
  "post_todos sdk b w =
     (if \<not> truthy (read_prop b ''title'')
      then (json 400 (error_body ''Title is required''), w)
      else (case fs_add sdk ''todos'' (todoData b) w of
              (Inl msg, w') \<Rightarrow> (json 500 (error_body msg), w')
            | (Inr docRef_id, w') \<Rightarrow>
                (json 201 ([''id'' \<mapsto> JStr docRef_id] ++ todoData b), w')))"

text \<open>\<^verbatim>\<open>app.put('/todos/:id')\<close>; \<open>updateData\<close> after the three guarded assignments.\<close>

definition set_if_defined :: "string \<Rightarrow> jsval \<Rightarrow> jsobj \<Rightarrow> jsobj" where
  "set_if_defined k v obj = (if defined v then obj(k \<mapsto> v) else obj)"

definition updateData :: "jsobj \<Rightarrow> jsobj" where
  "updateData b =
     set_if_defined ''completed'' (read_prop b ''completed'')
       (set_if_defined ''description'' (read_prop b ''description'')
         (set_if_defined ''title'' (read_prop b ''title'')
           [''updatedAt'' \<mapsto> JServerTimestamp]))"

definition put_todo :: "'w admin \<Rightarrow> string \<Rightarrow> jsobj \<Rightarrow> 'w \<Rightarrow> response \<times> 'w" where
  "put_todo sdk i b w =
     (case fs_doc_update sdk ''todos'' i (updateData b) w of
        (Inl msg, w') \<Rightarrow> (json 500 (error_body msg), w')
      | (Inr u, w') \<Rightarrow>
          (case fs_doc_get sdk ''todos'' i w' of
             (Inl msg, w'') \<Rightarrow> (json 500 (error_body msg), w'')
           | (Inr updatedDoc, w'') \<Rightarrow> (json 200 (with_id updatedDoc), w'')))"

text \<open>\<^verbatim>\<open>app.delete('/todos/:id')\<close>\<close>

definition delete_todo :: "'w admin \<Rightarrow> string \<Rightarrow> 'w \<Rightarrow> response \<times> 'w" where
  "delete_todo sdk i w =
     (case fs_doc_delete sdk ''todos'' i w of
        (Inl msg, w') \<Rightarrow> (json 500 (error_body msg), w')
      | (Inr u, w') \<Rightarrow> (json 200 [''message'' \<mapsto> JStr ''Todo deleted successfully''], w'))"

text \<open>
  The router: one constructor per route of \<^verbatim>\<open>exports.api\<close>, with the path parameter and
  the parsed body it carries (for \<^verbatim>\<open>/health\<close>, the time read while it is handled).
\<close>

datatype request =
    GetHealth string
  | GetUsers
  | PostUsers jsobj
  | GetUser string
  | GetTodos
  | PostTodos jsobj
  | PutTodo string jsobj
  | DeleteTodo string

fun api :: "'w admin \<Rightarrow> request \<Rightarrow> 'w \<Rightarrow> response \<times> 'w" where
  "api sdk (GetHealth now) = get_health now"
| "api sdk GetUsers = get_users sdk"
| "api sdk (PostUsers b) = post_users sdk b"
| "api sdk (GetUser i) = get_user sdk i"
| "api sdk GetTodos = get_todos sdk"
| "api sdk (PostTodos b) = post_todos sdk b"
| "api sdk (PutTodo i b) = put_todo sdk i b"
| "api sdk (DeleteTodo i) = delete_todo sdk i"

section \<open>The callable functions\<close>

text \<open>
  A callable rejects by throwing; \<^verbatim>\<open>new functions.https.HttpsError(code, message)\<close> is
  the only thing these two throw. \<^verbatim>\<open>context.auth\<close> is \<^verbatim>\<open>undefined\<close> (\<open>None\<close>) for a
  caller without an authenticated identity.
\<close>

datatype https_error = HttpsError string string

record call_context =
  auth :: "jsobj option"

definition createUser :: "'w admin \<Rightarrow> jsobj \<Rightarrow> call_context \<Rightarrow> 'w \<Rightarrow> (https_error + jsobj) \<times> 'w" where
  "createUser sdk data ctx w =
     (if auth ctx = None
      then (Inl (HttpsError ''unauthenticated'' ''User must be authenticated''), w)
      else (case auth_createUser sdk
                   [''email'' \<mapsto> read_prop data ''email'',
                    ''displayName'' \<mapsto> read_prop data ''displayName'',
                    ''emailVerified'' \<mapsto> JBool False] w of
              (Inl msg, w') \<Rightarrow> (Inl (HttpsError ''internal'' msg), w')
            | (Inr user, w') \<Rightarrow>
                (Inr [''uid'' \<mapsto> read_prop user ''uid'', ''email'' \<mapsto> read_prop user ''email''], w')))"

definition sendNotification ::
  "'w admin \<Rightarrow> jsobj \<Rightarrow> call_context \<Rightarrow> 'w \<Rightarrow> (https_error + jsobj) \<times> 'w" where
  "sendNotification sdk data ctx w =
     (if auth ctx = None
      then (Inl (HttpsError ''unauthenticated'' ''User must be authenticated''), w)
      else (case messaging_send sdk
                   [''token'' \<mapsto> read_prop data ''token'',
                    ''notification'' \<mapsto>
                       JObj [''title'' \<mapsto> read_prop data ''title'',
                             ''body'' \<mapsto> read_prop data ''body'']] w of
              (Inl msg, w') \<Rightarrow> (Inl (HttpsError ''internal'' msg), w')
            | (Inr response, w') \<Rightarrow>
                (Inr [''success'' \<mapsto> JBool True, ''messageId'' \<mapsto> JStr response], w')))"

section \<open>Observing the calls a handler makes\<close>

text \<open>
  Any client can be wrapped so that the world also carries a log: one entry per call that
  reached the client, with the arguments it was given and the message of the exception it
  raised, if it raised. A handler run against the wrapped client from an empty log shows
  which platform calls it made.
\<close>

datatype client_call =
    LimitGet string nat
  | Add string jsobj
  | DocGet string string
  | DocUpdate string string jsobj
  | DocDelete string string
  | CreateUser jsobj
  | Send jsobj

type_synonym event = "client_call \<times> string option"

definition raised :: "string + 'a \<Rightarrow> string option" where
  "raised r = (case r of Inl msg \<Rightarrow> Some msg | Inr v \<Rightarrow> None)"

definition logged :: "client_call \<Rightarrow> ('a, 'w) awaited \<Rightarrow> ('a, 'w \<times> event list) awaited" where
  "logged c f = (\<lambda>(w, evs). case f w of (r, w') \<Rightarrow> (r, (w', evs @ [(c, raised r)])))"

definition traced :: "'w admin \<Rightarrow> ('w \<times> event list) admin" where
  "traced sdk =
     \<lparr>fs_limit_get = (\<lambda>c n. logged (LimitGet c n) (fs_limit_get sdk c n)),
      fs_add = (\<lambda>c d. logged (Add c d) (fs_add sdk c d)),
      fs_doc_get = (\<lambda>c i. logged (DocGet c i) (fs_doc_get sdk c i)),
      fs_doc_update = (\<lambda>c i d. logged (DocUpdate c i d) (fs_doc_update sdk c i d)),
      fs_doc_delete = (\<lambda>c i. logged (DocDelete c i) (fs_doc_delete sdk c i)),
      auth_createUser = (\<lambda>a. logged (CreateUser a) (auth_createUser sdk a)),
      messaging_send = (\<lambda>m. logged (Send m) (messaging_send sdk m))\<rparr>"

section \<open>A reference platform\<close>

text \<open>
  Modelled from the spec: the platform behind \<^verbatim>\<open>admin\<close> (firebase-admin) is an external
  collaborator and not part of the source. This is the document store as the spec
  describes it: named collections of schemaless documents under opaque identifiers that the
  store assigns on insert, a query with a limit, update as a partial merge that fails with
  a store error when the identifier does not exist, unconditional permanent delete, and
  server timestamps that the store resolves when it writes. A collection lists its documents
  in the store's order. The identity provider creates an account and returns its unique
  identifier; the messaging service returns a receipt identifier. \<open>now\<close> is the server time
  of the call.
\<close>

text \<open>
  Modelled from the spec: the state of the platform, which is not in the source: the
  collections, each a list of identifier and document in the store's order, the accounts of
  the identity provider and the messages handed to the messaging service.
\<close>

record platform =
  colls :: "string \<Rightarrow> (string \<times> jsobj) list"
  accounts :: "jsobj list"
  outbox :: "jsobj list"

text \<open>
  Modelled from the spec: an opaque identifier assigned by the platform; it is not empty and
  differs from every identifier in use.
\<close>

definition fresh_id :: "string list \<Rightarrow> string" where
  "fresh_id used = replicate (Suc (foldr (\<lambda>i n. max (length i) n) used 0)) CHR ''x''"

text \<open>
  Modelled from the spec: a server timestamp sentinel is resolved to the server time when
  the store writes.
\<close>

fun resolve_value :: "nat \<Rightarrow> jsval \<Rightarrow> jsval" where
  "resolve_value now JServerTimestamp = JTimestamp now"
| "resolve_value now v = v"

text \<open>
  Modelled from the spec: the document as written, with its sentinels resolved.
\<close>

definition resolve_ts :: "nat \<Rightarrow> jsobj \<Rightarrow> jsobj" where
  "resolve_ts now d = (\<lambda>k. map_option (resolve_value now) (d k))"

text \<open>
  Modelled from the spec: the query with a limit returns at most that many documents of the
  collection.
\<close>

definition mem_limit_get :: "string \<Rightarrow> nat \<Rightarrow> (docsnap list, platform) awaited" where
  "mem_limit_get c n p =
     (Inr (map (\<lambda>(i, d). \<lparr>snap_id = i, snap_data = Some d\<rparr>) (take n (colls p c))), p)"

text \<open>
  Modelled from the spec: a single insert; the store assigns the identifier.
\<close>

definition mem_add :: "nat \<Rightarrow> string \<Rightarrow> jsobj \<Rightarrow> (string, platform) awaited" where
  "mem_add now c d p =
     (let i = fresh_id (map fst (colls p c))
      in (Inr i, p\<lparr>colls := (colls p)(c := colls p c @ [(i, resolve_ts now d)])\<rparr>))"

text \<open>
  Modelled from the spec: a read by identifier; the snapshot has no data when the identifier
  has no document.
\<close>

definition mem_doc_get :: "string \<Rightarrow> string \<Rightarrow> (docsnap, platform) awaited" where
  "mem_doc_get c i p = (Inr \<lparr>snap_id = i, snap_data = map_of (colls p c) i\<rparr>, p)"

text \<open>
  Modelled from the spec: update is a partial merge of the given fields into the document,
  and fails with a store error when the identifier does not exist.
\<close>

definition mem_doc_update :: "nat \<Rightarrow> string \<Rightarrow> string \<Rightarrow> jsobj \<Rightarrow> (unit, platform) awaited" where
  "mem_doc_update now c i u p =
     (case map_of (colls p c) i of
        None \<Rightarrow> (Inl ''No document to update'', p)
      | Some d \<Rightarrow>
          (Inr (), p\<lparr>colls := (colls p)(c := AList.update i (d ++ resolve_ts now u) (colls p c))\<rparr>))"

text \<open>
  Modelled from the spec: delete is unconditional and permanent, with no existence check.
\<close>

definition mem_doc_delete :: "string \<Rightarrow> string \<Rightarrow> (unit, platform) awaited" where
  "mem_doc_delete c i p = (Inr (), p\<lparr>colls := (colls p)(c := AList.delete i (colls p c))\<rparr>)"

text \<open>
  Modelled from the spec: the identity provider creates an account from the given fields and
  returns it with its unique identifier.
\<close>

definition mem_createUser :: "jsobj \<Rightarrow> (jsobj, platform) awaited" where
  "mem_createUser a p =
     (let user = a(''uid'' \<mapsto> JStr (fresh_id (map (\<lambda>u. case read_prop u ''uid'' of JStr s \<Rightarrow> s | _ \<Rightarrow> [])
                                                  (accounts p))))
      in (Inr user, p\<lparr>accounts := accounts p @ [user]\<rparr>))"

text \<open>
  Modelled from the spec: the messaging service takes the message and returns a receipt
  identifier.
\<close>

definition mem_send :: "jsobj \<Rightarrow> (string, platform) awaited" where
  "mem_send m p = (Inr (fresh_id (replicate (length (outbox p)) [])), p\<lparr>outbox := outbox p @ [m]\<rparr>)"

text \<open>
  Modelled from the spec: the client of the reference platform at server time now.
\<close>

definition mem_admin :: "nat \<Rightarrow> platform admin" where
  "mem_admin now =
     \<lparr>fs_limit_get = mem_limit_get,
      fs_add = mem_add now,
      fs_doc_get = mem_doc_get,
      fs_doc_update = mem_doc_update now,
      fs_doc_delete = mem_doc_delete,
      auth_createUser = mem_createUser,
      messaging_send = mem_send\<rparr>"

text \<open>
  Not in the source and not in the spec: the Firestore client of firebase-admin, as
  \<^verbatim>\<open>admin.initializeApp()\<close> on line 8 leaves it (nothing sets \<^verbatim>\<open>ignoreUndefinedProperties\<close>),
  validates a document before it writes and raises when a property is bound to
  \<^verbatim>\<open>undefined\<close>. \<open>strict_admin\<close> is the reference platform with that check on insert; the
  message stands for the one the client raises.
\<close>

definition has_undefined :: "jsobj \<Rightarrow> bool" where
  "has_undefined d = (\<exists>k. d k = Some JUndefined)"

definition strict_add :: "nat \<Rightarrow> string \<Rightarrow> jsobj \<Rightarrow> (string, platform) awaited" where
  "strict_add now c d p =
     (if has_undefined d then (Inl ''Cannot use undefined as a Firestore value'', p)
      else mem_add now c d p)"

definition strict_admin :: "nat \<Rightarrow> platform admin" where
  "strict_admin now = (mem_admin now)\<lparr>fs_add := strict_add now\<rparr>"

section \<open>Reading responses and example platforms\<close>

text \<open>
  \<open>field v k\<close> is property \<open>k\<close> of an object value, \<open>body_prop res k\<close> property \<open>k\<close> of the
  object a handler gave to \<^verbatim>\<open>res.json\<close>, and \<open>listed res k\<close> the elements of the array it
  carries under \<open>k\<close>.
\<close>

fun field :: "jsval \<Rightarrow> string \<Rightarrow> jsval option" where
  "field (JObj obj) k = obj k"
| "field v k = None"

definition body_prop :: "response \<Rightarrow> string \<Rightarrow> jsval option" where
  "body_prop res k = field (body res) k"

fun elements :: "jsval option \<Rightarrow> jsval list" where
  "elements (Some (JArr xs)) = xs"
| "elements v = []"

definition listed :: "response \<Rightarrow> string \<Rightarrow> jsval list" where
  "listed res k = elements (body_prop res k)"

text \<open>
  \<open>entry\<close> is \<^verbatim>\<open>{ id: doc.id, ...doc.data() }\<close> for a document of the reference store, given as
  its identifier and data.
\<close>

definition entry :: "string \<times> jsobj \<Rightarrow> jsval" where
  "entry = (\<lambda>(i, d). JObj ([''id'' \<mapsto> JStr i] ++ d))"

text \<open>\<open>stored p c i k\<close> is field \<open>k\<close> of the document under identifier \<open>i\<close> in collection \<open>c\<close>.\<close>

definition stored :: "platform \<Rightarrow> string \<Rightarrow> string \<Rightarrow> string \<Rightarrow> jsval option" where
  "stored p c i k = (case map_of (colls p c) i of None \<Rightarrow> None | Some d \<Rightarrow> d k)"

text \<open>
  A platform with nothing in it; one with a user and a todo as the handlers write them;
  and one where a user document has a field named \<open>id\<close> of its own.
\<close>

definition empty_platform :: platform where
  "empty_platform = \<lparr>colls = (\<lambda>c. []), accounts = [], outbox = []\<rparr>"

definition ann :: jsobj where
  "ann = [''name'' \<mapsto> JStr ''Ann'', ''email'' \<mapsto> JStr ''ann@example.org'',
          ''role'' \<mapsto> JStr ''user'', ''createdAt'' \<mapsto> JTimestamp 1, ''updatedAt'' \<mapsto> JTimestamp 1]"

definition milk :: jsobj where
  "milk = [''title'' \<mapsto> JStr ''Buy milk'', ''description'' \<mapsto> JStr ''2 l'',
           ''completed'' \<mapsto> JBool False, ''createdAt'' \<mapsto> JTimestamp 2, ''updatedAt'' \<mapsto> JTimestamp 2]"

definition small_platform :: platform where
  "small_platform =
     \<lparr>colls = (\<lambda>c. if c = ''users'' then [(''u1'', ann)]
                   else if c = ''todos'' then [(''t1'', milk)] else []),
      accounts = [], outbox = []\<rparr>"

definition shadow_platform :: platform where
  "shadow_platform =
     \<lparr>colls = (\<lambda>c. if c = ''users'' \<or> c = ''todos''
                   then [(''u1'', [''id'' \<mapsto> JStr ''zzz'', ''name'' \<mapsto> JStr ''Ann''])] else []),
      accounts = [], outbox = []\<rparr>"

section \<open>Facts about the model\<close>

lemma logged_apply:
  "logged c f (w, evs) = (fst (f w), (snd (f w), evs @ [(c, raised (fst (f w)))]))"
  by (simp add: logged_def split: prod.splits)

lemma raised_simps: "raised (Inl m) = Some m" "raised (Inr v) = None"
  by (simp_all add: raised_def)

lemma traced_sel:
  "fs_limit_get (traced sdk) c n = logged (LimitGet c n) (fs_limit_get sdk c n)"
  "fs_add (traced sdk) c d = logged (Add c d) (fs_add sdk c d)"
  "fs_doc_get (traced sdk) c i = logged (DocGet c i) (fs_doc_get sdk c i)"
  "fs_doc_update (traced sdk) c i d = logged (DocUpdate c i d) (fs_doc_update sdk c i d)"
  "fs_doc_delete (traced sdk) c i = logged (DocDelete c i) (fs_doc_delete sdk c i)"
  "auth_createUser (traced sdk) a = logged (CreateUser a) (auth_createUser sdk a)"
  "messaging_send (traced sdk) m = logged (Send m) (messaging_send sdk m)"
  by (simp_all add: traced_def)

lemma body_prop_json: "body_prop (json code obj) k = obj k"
  by (simp add: body_prop_def json_def)

lemma status_json: "status (json code obj) = code"
  by (simp add: json_def)

lemma todoData_sel:
  "todoData b ''title'' = Some (read_prop b ''title'')"
  "todoData b ''description'' = Some (read_prop b ''description'')"
  "todoData b ''completed'' = Some (read_default b ''completed'' (JBool False))"
  "todoData b ''id'' = None"
  by (simp_all add: todoData_def)

lemma userData_sel:
  "userData b ''name'' = Some (read_prop b ''name'')"
  "userData b ''email'' = Some (read_prop b ''email'')"
  "userData b ''role'' = Some (read_default b ''role'' (JStr ''user''))"
  "userData b ''id'' = None"
  by (simp_all add: userData_def)

lemma read_default_absent: "b k = None \<Longrightarrow> read_default b k d = d"
  by (simp add: read_default_def read_prop_def)

lemma read_default_present: "b k = Some v \<Longrightarrow> v \<noteq> JUndefined \<Longrightarrow> read_default b k d = v"
  by (cases v) (simp_all add: read_default_def read_prop_def)

lemma post_users_resolved:
  assumes "truthy (read_prop b ''name'')" and "truthy (read_prop b ''email'')"
    and "fs_add sdk ''users'' (userData b) w = (Inr i, w')"
  shows "post_users (traced sdk) b (w, []) =
           (json 201 ([''id'' \<mapsto> JStr i] ++ userData b), (w', [(Add ''users'' (userData b), None)]))"
  using assms by (simp add: post_users_def traced_sel logged_apply raised_simps)

lemma post_todos_run:
  assumes "truthy (read_prop b ''title'')"
  shows "post_todos (traced sdk) b (w, []) =
           (case fs_add sdk ''todos'' (todoData b) w of
              (Inl msg, w') \<Rightarrow>
                (json 500 (error_body msg), (w', [(Add ''todos'' (todoData b), Some msg)]))
            | (Inr i, w') \<Rightarrow>
                (json 201 ([''id'' \<mapsto> JStr i] ++ todoData b),
                 (w', [(Add ''todos'' (todoData b), None)])))"
  using assms
  by (simp add: post_todos_def traced_sel logged_apply raised_simps split: prod.splits sum.splits)

lemma fresh_id_length: "i \<in> set used \<Longrightarrow> length i < length (fresh_id used)"
  by (induction used) (auto simp: fresh_id_def)

lemma fresh_id_fresh: "fresh_id used \<noteq> [] \<and> fresh_id used \<notin> set used"
proof
  show "fresh_id used \<noteq> []"
    by (simp add: fresh_id_def)
  show "fresh_id used \<notin> set used"
    using fresh_id_length [of "fresh_id used" used] by auto
qed

section \<open>Validation failures\<close>

text \<open>
  C1. When \<open>name\<close> is missing or the empty string, or \<open>email\<close> is, \<^verbatim>\<open>POST /users\<close> answers 400
  with an error object; whatever the client, it is not called (the log stays empty) and the
  world is the one the handler started in.
\<close>

theorem post_users_rejects_missing_name_or_email:
  assumes "b ''name'' = None \<or> b ''name'' = Some (JStr [])
         \<or> b ''email'' = None \<or> b ''email'' = Some (JStr [])"
  shows "post_users (traced sdk) b (w, []) =
           (\<lparr>status = 400, body = JObj [''error'' \<mapsto> JStr ''Name and email are required'']\<rparr>,
            (w, []))"
  using assms by (auto simp: post_users_def read_prop_def json_def error_body_def)

theorem post_users_rejects_missing_name_or_email_witness:
  "([''email'' \<mapsto> JStr ''ann@example.org''] ''name'' = None
      \<or> [''email'' \<mapsto> JStr ''ann@example.org''] ''name'' = Some (JStr [])
      \<or> [''email'' \<mapsto> JStr ''ann@example.org''] ''email'' = None
      \<or> [''email'' \<mapsto> JStr ''ann@example.org''] ''email'' = Some (JStr []))
   \<and> post_users (traced (mem_admin 0)) [''email'' \<mapsto> JStr ''ann@example.org''] (small_platform, []) =
       (\<lparr>status = 400, body = JObj [''error'' \<mapsto> JStr ''Name and email are required'']\<rparr>,
        (small_platform, []))"
proof -
  have h: "[''email'' \<mapsto> JStr ''ann@example.org''] ''name'' = None
      \<or> [''email'' \<mapsto> JStr ''ann@example.org''] ''name'' = Some (JStr [])
      \<or> [''email'' \<mapsto> JStr ''ann@example.org''] ''email'' = None
      \<or> [''email'' \<mapsto> JStr ''ann@example.org''] ''email'' = Some (JStr [])"
    by simp
  show ?thesis
    by (rule conjI [OF h post_users_rejects_missing_name_or_email [OF h]])
qed

text \<open>
  C7. A callable invoked with no authenticated identity in its context fails with the
  \<open>unauthenticated\<close> error; whatever the client, neither the identity provider nor the
  messaging service is called (the log stays empty) and the world is unchanged.
\<close>

theorem callable_unauthenticated:
  assumes "auth ctx = None"
  shows "createUser (traced sdk) payload ctx (w, []) =
           (Inl (HttpsError ''unauthenticated'' ''User must be authenticated''), (w, []))
       \<and> sendNotification (traced sdk) payload ctx (w, []) =
           (Inl (HttpsError ''unauthenticated'' ''User must be authenticated''), (w, []))"
  using assms by (simp add: createUser_def sendNotification_def)

theorem callable_unauthenticated_witness:
  "auth \<lparr>auth = None\<rparr> = None
   \<and> createUser (traced (mem_admin 0)) [''email'' \<mapsto> JStr ''ann@example.org'']
        \<lparr>auth = None\<rparr> (small_platform, []) =
       (Inl (HttpsError ''unauthenticated'' ''User must be authenticated''), (small_platform, []))
   \<and> sendNotification (traced (mem_admin 0)) [''email'' \<mapsto> JStr ''ann@example.org'']
        \<lparr>auth = None\<rparr> (small_platform, []) =
       (Inl (HttpsError ''unauthenticated'' ''User must be authenticated''), (small_platform, []))"
proof -
  have h: "auth \<lparr>auth = None\<rparr> = None"
    by simp
  show ?thesis
    by (rule conjI [OF h callable_unauthenticated [OF h]])
qed

section \<open>Creating documents\<close>

lemma small_add_todo:
  "fs_add (mem_admin 7) ''todos'' d small_platform =
     (Inr ''xxx'',
      small_platform\<lparr>colls := (colls small_platform)
         (''todos'' := [(''t1'', milk), (''xxx'', resolve_ts 7 d)])\<rparr>)"
  by (simp add: mem_admin_def mem_add_def fresh_id_def small_platform_def Let_def)

lemma small_add_user:
  "fs_add (mem_admin 7) ''users'' d small_platform =
     (Inr ''xxx'',
      small_platform\<lparr>colls := (colls small_platform)
         (''users'' := [(''u1'', ann), (''xxx'', resolve_ts 7 d)])\<rparr>)"
  by (simp add: mem_admin_def mem_add_def fresh_id_def small_platform_def Let_def)

lemma strict_add_refuses:
  assumes "d k = Some JUndefined"
  shows "fs_add (strict_admin now) c d p = (Inl ''Cannot use undefined as a Firestore value'', p)"
proof -
  have "has_undefined d"
    unfolding has_undefined_def using assms by (rule exI)
  then show ?thesis
    by (simp add: strict_admin_def strict_add_def)
qed

lemma strict_add_accepts:
  assumes "\<not> has_undefined d"
  shows "fs_add (strict_admin now) c d p = fs_add (mem_admin now) c d p"
  using assms by (simp add: strict_admin_def strict_add_def mem_admin_def)

lemma post_todos_without_description:
  assumes "truthy (read_prop b ''title'')" and "b ''description'' = None"
  shows "post_todos (traced (strict_admin now)) b (p, []) =
           (json 500 (error_body ''Cannot use undefined as a Firestore value''),
            (p, [(Add ''todos'' (todoData b), Some ''Cannot use undefined as a Firestore value'')]))"
proof -
  have d: "todoData b ''description'' = Some JUndefined"
    using assms(2) by (simp add: todoData_sel read_prop_def)
  have "fs_add (strict_admin now) ''todos'' (todoData b) p =
          (Inl ''Cannot use undefined as a Firestore value'', p)"
    using d by (rule strict_add_refuses [where d = "todoData b" and k = "''description''"])
  with post_todos_run [OF assms(1), of "strict_admin now" p]
  show ?thesis
    by simp
qed

lemma described_todo_defined:
  "\<not> has_undefined (todoData [''title'' \<mapsto> JStr ''Buy milk'', ''description'' \<mapsto> JStr ''2 l''])"
  by (auto simp: has_undefined_def todoData_def read_prop_def read_default_def split: if_splits)

lemma post_todos_with_description:
  "post_todos (traced (strict_admin 7))
       [''title'' \<mapsto> JStr ''Buy milk'', ''description'' \<mapsto> JStr ''2 l''] (small_platform, []) =
     (json 201 ([''id'' \<mapsto> JStr ''xxx'']
         ++ todoData [''title'' \<mapsto> JStr ''Buy milk'', ''description'' \<mapsto> JStr ''2 l'']),
      (small_platform\<lparr>colls := (colls small_platform)
          (''todos'' := [(''t1'', milk),
              (''xxx'', resolve_ts 7
                 (todoData [''title'' \<mapsto> JStr ''Buy milk'', ''description'' \<mapsto> JStr ''2 l'']))])\<rparr>,
       [(Add ''todos'' (todoData [''title'' \<mapsto> JStr ''Buy milk'', ''description'' \<mapsto> JStr ''2 l'']),
         None)]))"
proof -
  have "truthy (read_prop [''title'' \<mapsto> JStr ''Buy milk'', ''description'' \<mapsto> JStr ''2 l''] ''title'')"
    by (simp add: read_prop_def)
  from post_todos_run [OF this, of "strict_admin 7" small_platform]
  show ?thesis
    by (simp add: strict_add_accepts [OF described_todo_defined] small_add_todo)
qed

text \<open>
  C3 does not hold of the code. The claim promises 201 and an inserted document for every
  body with a non-empty \<open>title\<close>, \<open>description\<close> being optional. \<^verbatim>\<open>POST /todos\<close> copies
  \<open>description\<close> into the document unguarded, so for the body \<^verbatim>\<open>{"title": "Buy milk"}\<close> the
  insert is handed \<open>description\<close> bound to \<^verbatim>\<open>undefined\<close>; a store client that refuses such a
  document raises, the \<^verbatim>\<open>catch\<close> answers 500 and nothing is inserted. With \<open>description\<close>
  supplied the same client accepts and the answer is 201. \<^verbatim>\<open>PUT /todos/:id\<close> does guard each
  field with \<^verbatim>\<open>!== undefined\<close> before it reaches the store.
\<close>

theorem post_todos_title_only_rejected:
  "post_todos (traced (strict_admin 7)) [''title'' \<mapsto> JStr ''Buy milk''] (small_platform, []) =
     (\<lparr>status = 500, body = JObj [''error'' \<mapsto> JStr ''Cannot use undefined as a Firestore value'']\<rparr>,
      (small_platform,
       [(Add ''todos'' (todoData [''title'' \<mapsto> JStr ''Buy milk'']),
         Some ''Cannot use undefined as a Firestore value'')]))
   \<and> status (fst (post_todos (traced (strict_admin 7))
         [''title'' \<mapsto> JStr ''Buy milk'', ''description'' \<mapsto> JStr ''2 l''] (small_platform, []))) = 201"
proof -
  have t: "truthy (read_prop [''title'' \<mapsto> JStr ''Buy milk''] ''title'')"
    and d: "[''title'' \<mapsto> JStr ''Buy milk''] ''description'' = None"
    by (simp_all add: read_prop_def)
  have c1: "post_todos (traced (strict_admin 7)) [''title'' \<mapsto> JStr ''Buy milk''] (small_platform, []) =
     (\<lparr>status = 500, body = JObj [''error'' \<mapsto> JStr ''Cannot use undefined as a Firestore value'']\<rparr>,
      (small_platform,
       [(Add ''todos'' (todoData [''title'' \<mapsto> JStr ''Buy milk'']),
         Some ''Cannot use undefined as a Firestore value'')]))"
    by (simp only: post_todos_without_description [OF t d] json_def error_body_def)
  have c2: "status (fst (post_todos (traced (strict_admin 7))
         [''title'' \<mapsto> JStr ''Buy milk'', ''description'' \<mapsto> JStr ''2 l''] (small_platform, []))) = 201"
    by (simp only: post_todos_with_description fst_conv status_json)
  show ?thesis
    by (rule conjI [OF c1 c2])
qed

text \<open>
  C4. For a body with non-empty \<open>name\<close> and \<open>email\<close>, when the store's insert of the user
  document resolves with a non-empty identifier \<open>i\<close>, \<^verbatim>\<open>POST /users\<close> answers 201 with that
  identifier under \<open>id\<close> and \<open>role\<close> as supplied, or \<open>"user"\<close> when it was omitted.
\<close>

theorem post_users_created:
  assumes "b ''name'' = Some (JStr n)" and "n \<noteq> []"
    and "b ''email'' = Some (JStr e)" and "e \<noteq> []"
    and "fs_add sdk ''users'' (userData b) w = (Inr i, w')" and "i \<noteq> []"
    and "post_users (traced sdk) b (w, []) = (res, out)"
  shows "status res = 201
       \<and> body_prop res ''id'' = Some (JStr i)
       \<and> (\<exists>s. body_prop res ''id'' = Some (JStr s) \<and> s \<noteq> [])
       \<and> (b ''role'' = None \<longrightarrow> body_prop res ''role'' = Some (JStr ''user''))
       \<and> (\<forall>v. b ''role'' = Some v \<and> v \<noteq> JUndefined \<longrightarrow> body_prop res ''role'' = Some v)
       \<and> out = (w', [(Add ''users'' (userData b), None)])"
proof -
  have "truthy (read_prop b ''name'')" and "truthy (read_prop b ''email'')"
    using assms(1-4) by (simp_all add: read_prop_def)
  from post_users_resolved [OF this assms(5)] assms(7)
  have res: "res = json 201 ([''id'' \<mapsto> JStr i] ++ userData b)"
    and out: "out = (w', [(Add ''users'' (userData b), None)])"
    by simp_all
  have p0: "status res = 201"
    by (simp add: res status_json)
  have p1: "body_prop res ''id'' = Some (JStr i)"
    by (simp add: res body_prop_json map_add_def userData_sel)
  have p2: "\<exists>s. body_prop res ''id'' = Some (JStr s) \<and> s \<noteq> []"
    by (rule exI [of _ i], rule conjI [OF p1 assms(6)])
  have p3: "b ''role'' = None \<longrightarrow> body_prop res ''role'' = Some (JStr ''user'')"
    by (simp add: res body_prop_json map_add_def userData_sel read_default_absent)
  have p4: "\<forall>v. b ''role'' = Some v \<and> v \<noteq> JUndefined \<longrightarrow> body_prop res ''role'' = Some v"
    by (simp add: res body_prop_json map_add_def userData_sel read_default_present)
  show ?thesis
    by (rule conjI [OF p0 conjI [OF p1 conjI [OF p2 conjI [OF p3 conjI [OF p4 out]]]]])
qed

theorem post_users_created_witness:
  "[''name'' \<mapsto> JStr ''Bob'', ''email'' \<mapsto> JStr ''bob@example.org'', ''role'' \<mapsto> JStr ''admin'']
      ''name'' = Some (JStr ''Bob'')
   \<and> ''Bob'' \<noteq> []
   \<and> [''name'' \<mapsto> JStr ''Bob'', ''email'' \<mapsto> JStr ''bob@example.org'', ''role'' \<mapsto> JStr ''admin'']
      ''email'' = Some (JStr ''bob@example.org'')
   \<and> ''bob@example.org'' \<noteq> []
   \<and> ''xxx'' \<noteq> []
   \<and> status (fst (post_users (traced (mem_admin 7))
         [''name'' \<mapsto> JStr ''Bob'', ''email'' \<mapsto> JStr ''bob@example.org'', ''role'' \<mapsto> JStr ''admin'']
         (small_platform, []))) = 201
   \<and> body_prop (fst (post_users (traced (mem_admin 7))
         [''name'' \<mapsto> JStr ''Bob'', ''email'' \<mapsto> JStr ''bob@example.org'', ''role'' \<mapsto> JStr ''admin'']
         (small_platform, []))) ''id'' = Some (JStr ''xxx'')
   \<and> body_prop (fst (post_users (traced (mem_admin 7))
         [''name'' \<mapsto> JStr ''Bob'', ''email'' \<mapsto> JStr ''bob@example.org'', ''role'' \<mapsto> JStr ''admin'']
         (small_platform, []))) ''role'' = Some (JStr ''admin'')"
proof -
  let ?b = "[''name'' \<mapsto> JStr ''Bob'', ''email'' \<mapsto> JStr ''bob@example.org'',
             ''role'' \<mapsto> JStr ''admin'']"
  let ?run = "post_users (traced (mem_admin 7)) ?b (small_platform, [])"
  have h1: "?b ''name'' = Some (JStr ''Bob'')" and h2: "''Bob'' \<noteq> []"
    and h3: "?b ''email'' = Some (JStr ''bob@example.org'')" and h4: "''bob@example.org'' \<noteq> []"
    and h6: "''xxx'' \<noteq> []"
    and role: "?b ''role'' = Some (JStr ''admin'') \<and> JStr ''admin'' \<noteq> JUndefined"
    by simp_all
  note h5 = small_add_user [of "userData ?b"]
  have h7: "?run = (fst ?run, snd ?run)"
    by (rule surjective_pairing)
  note t = post_users_created [OF h1 h2 h3 h4 h5 h6 h7]
  have c1: "status (fst ?run) = 201"
    by (rule t [THEN conjunct1])
  have c2: "body_prop (fst ?run) ''id'' = Some (JStr ''xxx'')"
    by (rule t [THEN conjunct2, THEN conjunct1])
  have c3: "body_prop (fst ?run) ''role'' = Some (JStr ''admin'')"
    by (rule t [THEN conjunct2, THEN conjunct2, THEN conjunct2, THEN conjunct2, THEN conjunct1,
                THEN spec, THEN mp, OF role])
  show ?thesis
    by (rule conjI [OF h1 conjI [OF h2 conjI [OF h3 conjI [OF h4 conjI [OF h6
          conjI [OF c1 conjI [OF c2 c3]]]]]]])
qed




section \<open>Exceptions of the store client\<close>

text \<open>
  C8. Whatever the client and whichever route: if a client call made while the request is
  handled raises an exception with message \<open>msg\<close>, the response is 500 and its body is the
  object whose \<open>error\<close> is exactly \<open>msg\<close>. (\<^verbatim>\<open>/health\<close> makes no call, and a handler makes
  no further call after one that raised.)
\<close>

theorem store_exception_gives_500:
  assumes "api (traced sdk) req (w, []) = (res, (w', evs))" and "(c, Some msg) \<in> set evs"
  shows "res = \<lparr>status = 500, body = JObj [''error'' \<mapsto> JStr msg]\<rparr>"
proof (cases req)
  case (GetHealth now)
  with assms show ?thesis
    by (auto simp: get_health_def)
next
  case GetUsers
  with assms show ?thesis
    by (auto simp: get_users_def traced_sel logged_apply raised_def json_def error_body_def
             split: prod.splits sum.splits)
next
  case (PostUsers b)
  with assms show ?thesis
    by (auto simp: post_users_def traced_sel logged_apply raised_def json_def error_body_def
             split: prod.splits sum.splits if_splits)
next
  case (GetUser i)
  with assms show ?thesis
    by (auto simp: get_user_def traced_sel logged_apply raised_def json_def error_body_def
             split: prod.splits sum.splits if_splits)
next
  case GetTodos
  with assms show ?thesis
    by (auto simp: get_todos_def traced_sel logged_apply raised_def json_def error_body_def
             split: prod.splits sum.splits)
next
  case (PostTodos b)
  with assms show ?thesis
    by (auto simp: post_todos_def traced_sel logged_apply raised_def json_def error_body_def
             split: prod.splits sum.splits if_splits)
next
  case (PutTodo i b)
  with assms show ?thesis
    by (auto simp: put_todo_def traced_sel logged_apply raised_def json_def error_body_def
             split: prod.splits sum.splits if_splits)
next
  case (DeleteTodo i)
  with assms show ?thesis
    by (auto simp: delete_todo_def traced_sel logged_apply raised_def json_def error_body_def
             split: prod.splits sum.splits)
qed

lemma put_missing_run:
  "api (traced (mem_admin 3)) (PutTodo ''t9'' [''completed'' \<mapsto> JBool True]) (small_platform, []) =
     (\<lparr>status = 500, body = JObj [''error'' \<mapsto> JStr ''No document to update'']\<rparr>,
      (small_platform,
       [(DocUpdate ''todos'' ''t9'' (updateData [''completed'' \<mapsto> JBool True]),
         Some ''No document to update'')]))"
  by (simp add: put_todo_def traced_sel logged_apply raised_simps mem_admin_def mem_doc_update_def
        small_platform_def json_def error_body_def)

theorem store_exception_gives_500_witness:
  "(DocUpdate ''todos'' ''t9'' (updateData [''completed'' \<mapsto> JBool True]),
      Some ''No document to update'')
     \<in> set [(DocUpdate ''todos'' ''t9'' (updateData [''completed'' \<mapsto> JBool True]),
              Some ''No document to update'')]
   \<and> fst (api (traced (mem_admin 3)) (PutTodo ''t9'' [''completed'' \<mapsto> JBool True])
             (small_platform, [])) =
       \<lparr>status = 500, body = JObj [''error'' \<mapsto> JStr ''No document to update'']\<rparr>"
proof -
  have h: "(DocUpdate ''todos'' ''t9'' (updateData [''completed'' \<mapsto> JBool True]),
              Some ''No document to update'')
            \<in> set [(DocUpdate ''todos'' ''t9'' (updateData [''completed'' \<mapsto> JBool True]),
                     Some ''No document to update'')]"
    by (rule list.set_intros(1))
  have run: "api (traced (mem_admin 3)) (PutTodo ''t9'' [''completed'' \<mapsto> JBool True])
               (small_platform, []) =
             (fst (api (traced (mem_admin 3)) (PutTodo ''t9'' [''completed'' \<mapsto> JBool True])
                    (small_platform, [])),
              (small_platform,
               [(DocUpdate ''todos'' ''t9'' (updateData [''completed'' \<mapsto> JBool True]),
                 Some ''No document to update'')]))"
    by (simp only: put_missing_run fst_conv)
  show ?thesis
    by (rule conjI [OF h store_exception_gives_500 [OF run h]])
qed

section \<open>Reading documents\<close>

lemma with_id_present: "with_id \<lparr>snap_id = i, snap_data = Some d\<rparr> = [''id'' \<mapsto> JStr i] ++ d"
  by (simp add: with_id_def spread_def)

lemma merged_other: "k \<noteq> ''id'' \<Longrightarrow> ([''id'' \<mapsto> v] ++ d) k = d k"
  by (simp add: map_add_def split: option.splits)

lemma merged_id_absent: "d ''id'' = None \<Longrightarrow> ([''id'' \<mapsto> v] ++ d) ''id'' = Some v"
  by (simp add: map_add_def)

lemma merged_id_present: "d ''id'' = Some u \<Longrightarrow> ([''id'' \<mapsto> v] ++ d) ''id'' = Some u"
  by (simp add: map_add_def)

lemma mem_get_user:
  "get_user (mem_admin now) i p =
     (case map_of (colls p ''users'') i of
        None \<Rightarrow> (json 404 (error_body ''User not found''), p)
      | Some d \<Rightarrow> (json 200 ([''id'' \<mapsto> JStr i] ++ d), p))"
  by (simp add: get_user_def mem_admin_def mem_doc_get_def snap_exists_def with_id_present
           split: option.splits)

text \<open>
  C5, as the code has it. Against the reference store: an identifier with no document in
  \<open>users\<close> gets 404 and \<open>{error: "User not found"}\<close>; an identifier with a document gets 200
  and an object with every field of the document other than \<open>id\<close> as stored, and under \<open>id\<close>
  the identifier when the document has no field \<open>id\<close>, the document's own field \<open>id\<close> when it
  has one. The store is left as it was.
\<close>

theorem get_user_by_id:
  assumes "get_user (mem_admin now) i p = (res, p')"
  shows "p' = p
       \<and> (map_of (colls p ''users'') i = None \<longrightarrow>
            res = \<lparr>status = 404, body = JObj [''error'' \<mapsto> JStr ''User not found'']\<rparr>)
       \<and> (\<forall>d. map_of (colls p ''users'') i = Some d \<longrightarrow>
              status res = 200
            \<and> (\<forall>k. k \<noteq> ''id'' \<longrightarrow> body_prop res k = d k)
            \<and> (d ''id'' = None \<longrightarrow> body_prop res ''id'' = Some (JStr i))
            \<and> (\<forall>v. d ''id'' = Some v \<longrightarrow> body_prop res ''id'' = Some v))"
proof (cases "map_of (colls p ''users'') i")
  case None
  with assms have "p' = p" and "res = json 404 (error_body ''User not found'')"
    by (simp_all add: mem_get_user)
  with None show ?thesis
    by (simp add: json_def error_body_def)
next
  case (Some d)
  with assms have "p' = p" and res: "res = json 200 ([''id'' \<mapsto> JStr i] ++ d)"
    by (simp_all add: mem_get_user)
  with Some show ?thesis
    by (simp add: status_json body_prop_json merged_other merged_id_absent merged_id_present)
qed

theorem get_user_id_shadowed:
  "map_of (colls shadow_platform ''users'') ''u1'' =
      Some [''id'' \<mapsto> JStr ''zzz'', ''name'' \<mapsto> JStr ''Ann'']
   \<and> status (fst (get_user (mem_admin 0) ''u1'' shadow_platform)) = 200
   \<and> body_prop (fst (get_user (mem_admin 0) ''u1'' shadow_platform)) ''id'' = Some (JStr ''zzz'')
   \<and> body_prop (fst (get_user (mem_admin 0) ''u1'' shadow_platform)) ''id'' \<noteq> Some (JStr ''u1'')"
  by (simp add: mem_get_user shadow_platform_def status_json body_prop_json map_add_def)

theorem get_user_by_id_witness:
  "map_of (colls small_platform ''users'') ''u9'' = None
   \<and> fst (get_user (mem_admin 0) ''u9'' small_platform) =
       \<lparr>status = 404, body = JObj [''error'' \<mapsto> JStr ''User not found'']\<rparr>
   \<and> map_of (colls small_platform ''users'') ''u1'' = Some ann
   \<and> ann ''id'' = None
   \<and> status (fst (get_user (mem_admin 0) ''u1'' small_platform)) = 200
   \<and> body_prop (fst (get_user (mem_admin 0) ''u1'' small_platform)) ''id'' = Some (JStr ''u1'')
   \<and> body_prop (fst (get_user (mem_admin 0) ''u1'' small_platform)) ''name'' = ann ''name''"
proof -
  let ?r9 = "get_user (mem_admin 0) ''u9'' small_platform"
  let ?r1 = "get_user (mem_admin 0) ''u1'' small_platform"
  have a: "map_of (colls small_platform ''users'') ''u9'' = None"
    and b: "map_of (colls small_platform ''users'') ''u1'' = Some ann"
    by (simp_all add: small_platform_def)
  have noid: "ann ''id'' = None" and other: "''name'' \<noteq> ''id''"
    by (simp_all add: ann_def)
  have run9: "?r9 = (fst ?r9, snd ?r9)" and run1: "?r1 = (fst ?r1, snd ?r1)"
    by (rule surjective_pairing)+
  note t9 = get_user_by_id [OF run9]
  note t1 = get_user_by_id [OF run1, THEN conjunct2, THEN conjunct2, THEN spec, THEN mp, OF b]
  have c1: "fst ?r9 = \<lparr>status = 404, body = JObj [''error'' \<mapsto> JStr ''User not found'']\<rparr>"
    by (rule t9 [THEN conjunct2, THEN conjunct1, THEN mp, OF a])
  have c2: "status (fst ?r1) = 200"
    by (rule t1 [THEN conjunct1])
  have c3: "body_prop (fst ?r1) ''id'' = Some (JStr ''u1'')"
    by (rule t1 [THEN conjunct2, THEN conjunct2, THEN conjunct1, THEN mp, OF noid])
  have c4: "body_prop (fst ?r1) ''name'' = ann ''name''"
    by (rule t1 [THEN conjunct2, THEN conjunct1, THEN spec, THEN mp, OF other])
  show ?thesis
    by (rule conjI [OF a conjI [OF c1 conjI [OF b conjI [OF noid conjI [OF c2 conjI [OF c3 c4]]]]]])
qed

section \<open>Listing a collection\<close>

lemma mem_list_entries:
  "map (\<lambda>doc. JObj (with_id doc)) (map (\<lambda>(i, d). \<lparr>snap_id = i, snap_data = Some d\<rparr>) docs) =
     map entry docs"
  by (induction docs) (auto simp: with_id_present entry_def)

lemma mem_get_users:
  "get_users (mem_admin now) p =
     (json 200 [''users'' \<mapsto> JArr (map entry (take 50 (colls p ''users'')))], p)"
  by (simp add: get_users_def mem_admin_def mem_limit_get_def mem_list_entries del: map_map)

lemma mem_get_todos:
  "get_todos (mem_admin now) p =
     (json 200 [''todos'' \<mapsto> JArr (map entry (take 50 (colls p ''todos'')))], p)"
  by (simp add: get_todos_def mem_admin_def mem_limit_get_def mem_list_entries del: map_map)

lemma listed_json: "listed (json code [k \<mapsto> JArr xs]) k = xs"
  by (simp add: listed_def body_prop_json)

lemma entries_listed:
  assumes "xs = map entry (take 50 docs)"
  shows "length xs = min 50 (length docs)
       \<and> length xs \<le> 50
       \<and> (\<forall>n<length xs. \<forall>i d. docs ! n = (i, d) \<longrightarrow>
              (\<forall>k. k \<noteq> ''id'' \<longrightarrow> field (xs ! n) k = d k)
            \<and> (d ''id'' = None \<longrightarrow> field (xs ! n) ''id'' = Some (JStr i))
            \<and> (\<forall>v. d ''id'' = Some v \<longrightarrow> field (xs ! n) ''id'' = Some v))"
proof -
  have len: "length xs = min 50 (length docs)"
    by (simp add: assms min.commute)
  have el: "field (xs ! n) k = ([''id'' \<mapsto> JStr i] ++ d) k"
    if "n < length xs" and "docs ! n = (i, d)" for n i d k
    using that by (simp add: assms entry_def)
  show ?thesis
    using len by (simp add: el merged_other merged_id_absent merged_id_present)
qed

text \<open>
  C9, as the code has it. Against the reference store, in every state of it: \<^verbatim>\<open>GET /users\<close>
  and \<^verbatim>\<open>GET /todos\<close> answer 200 with a list under \<open>users\<close> (\<open>todos\<close>) that has one element for
  each of the first 50 documents of the collection, so at most 50; an element has every
  field of its document other than \<open>id\<close> as stored, and under \<open>id\<close> the identifier when the
  document has no field \<open>id\<close>, the document's own field \<open>id\<close> when it has one. The store is
  left as it was.
\<close>

theorem list_routes:
  assumes "get_users (mem_admin now) p = (ures, pu)"
    and "get_todos (mem_admin now) p = (tres, pt)"
  shows "(status ures = 200 \<and> pu = p
          \<and> body_prop ures ''users'' = Some (JArr (listed ures ''users''))
          \<and> length (listed ures ''users'') = min 50 (length (colls p ''users''))
          \<and> length (listed ures ''users'') \<le> 50
          \<and> (\<forall>n<length (listed ures ''users''). \<forall>i d. colls p ''users'' ! n = (i, d) \<longrightarrow>
                 (\<forall>k. k \<noteq> ''id'' \<longrightarrow> field (listed ures ''users'' ! n) k = d k)
               \<and> (d ''id'' = None \<longrightarrow> field (listed ures ''users'' ! n) ''id'' = Some (JStr i))
               \<and> (\<forall>v. d ''id'' = Some v \<longrightarrow> field (listed ures ''users'' ! n) ''id'' = Some v)))
       \<and> (status tres = 200 \<and> pt = p
          \<and> body_prop tres ''todos'' = Some (JArr (listed tres ''todos''))
          \<and> length (listed tres ''todos'') = min 50 (length (colls p ''todos''))
          \<and> length (listed tres ''todos'') \<le> 50
          \<and> (\<forall>n<length (listed tres ''todos''). \<forall>i d. colls p ''todos'' ! n = (i, d) \<longrightarrow>
                 (\<forall>k. k \<noteq> ''id'' \<longrightarrow> field (listed tres ''todos'' ! n) k = d k)
               \<and> (d ''id'' = None \<longrightarrow> field (listed tres ''todos'' ! n) ''id'' = Some (JStr i))
               \<and> (\<forall>v. d ''id'' = Some v \<longrightarrow> field (listed tres ''todos'' ! n) ''id'' = Some v)))"
proof (rule conjI)
  from assms(1) have res: "ures = json 200 [''users'' \<mapsto> JArr (map entry (take 50 (colls p ''users'')))]"
    and same: "pu = p"
    by (auto simp: mem_get_users)
  have l: "listed ures ''users'' = map entry (take 50 (colls p ''users''))"
    by (simp only: res listed_json)
  have s: "status ures = 200" and b: "body_prop ures ''users'' = Some (JArr (listed ures ''users''))"
    by (simp_all add: l) (simp_all add: res status_json body_prop_json)
  from s same b entries_listed [OF l]
  show "status ures = 200 \<and> pu = p
          \<and> body_prop ures ''users'' = Some (JArr (listed ures ''users''))
          \<and> length (listed ures ''users'') = min 50 (length (colls p ''users''))
          \<and> length (listed ures ''users'') \<le> 50
          \<and> (\<forall>n<length (listed ures ''users''). \<forall>i d. colls p ''users'' ! n = (i, d) \<longrightarrow>
                 (\<forall>k. k \<noteq> ''id'' \<longrightarrow> field (listed ures ''users'' ! n) k = d k)
               \<and> (d ''id'' = None \<longrightarrow> field (listed ures ''users'' ! n) ''id'' = Some (JStr i))
               \<and> (\<forall>v. d ''id'' = Some v \<longrightarrow> field (listed ures ''users'' ! n) ''id'' = Some v))"
    by (intro conjI) (rule TrueI | assumption | erule conjunct1 | (drule conjunct2, erule conjunct1)
        | (drule conjunct2, erule conjunct2))+
next
  from assms(2) have res: "tres = json 200 [''todos'' \<mapsto> JArr (map entry (take 50 (colls p ''todos'')))]"
    and same: "pt = p"
    by (auto simp: mem_get_todos)
  have l: "listed tres ''todos'' = map entry (take 50 (colls p ''todos''))"
    by (simp only: res listed_json)
  have s: "status tres = 200" and b: "body_prop tres ''todos'' = Some (JArr (listed tres ''todos''))"
    by (simp_all add: l) (simp_all add: res status_json body_prop_json)
  from s same b entries_listed [OF l]
  show "status tres = 200 \<and> pt = p
          \<and> body_prop tres ''todos'' = Some (JArr (listed tres ''todos''))
          \<and> length (listed tres ''todos'') = min 50 (length (colls p ''todos''))
          \<and> length (listed tres ''todos'') \<le> 50
          \<and> (\<forall>n<length (listed tres ''todos''). \<forall>i d. colls p ''todos'' ! n = (i, d) \<longrightarrow>
                 (\<forall>k. k \<noteq> ''id'' \<longrightarrow> field (listed tres ''todos'' ! n) k = d k)
               \<and> (d ''id'' = None \<longrightarrow> field (listed tres ''todos'' ! n) ''id'' = Some (JStr i))
               \<and> (\<forall>v. d ''id'' = Some v \<longrightarrow> field (listed tres ''todos'' ! n) ''id'' = Some v))"
    by (intro conjI) (rule TrueI | assumption | erule conjunct1 | (drule conjunct2, erule conjunct1)
        | (drule conjunct2, erule conjunct2))+
qed

theorem list_routes_id_shadowed:
  "colls shadow_platform ''users'' ! 0 = (''u1'', [''id'' \<mapsto> JStr ''zzz'', ''name'' \<mapsto> JStr ''Ann''])
   \<and> status (fst (get_users (mem_admin 0) shadow_platform)) = 200
   \<and> length (listed (fst (get_users (mem_admin 0) shadow_platform)) ''users'') = 1
   \<and> field (listed (fst (get_users (mem_admin 0) shadow_platform)) ''users'' ! 0) ''id''
        = Some (JStr ''zzz'')
   \<and> field (listed (fst (get_users (mem_admin 0) shadow_platform)) ''users'' ! 0) ''id''
        \<noteq> Some (JStr ''u1'')"
  by (simp add: mem_get_users listed_json status_json shadow_platform_def entry_def map_add_def)

theorem list_routes_witness:
  "status (fst (get_users (mem_admin 0) small_platform)) = 200
   \<and> length (listed (fst (get_users (mem_admin 0) small_platform)) ''users'') \<le> 50
   \<and> colls small_platform ''users'' ! 0 = (''u1'', ann)
   \<and> ann ''id'' = None
   \<and> field (listed (fst (get_users (mem_admin 0) small_platform)) ''users'' ! 0) ''id''
        = Some (JStr ''u1'')
   \<and> field (listed (fst (get_users (mem_admin 0) small_platform)) ''users'' ! 0) ''name''
        = ann ''name''
   \<and> status (fst (get_todos (mem_admin 0) small_platform)) = 200
   \<and> length (listed (fst (get_todos (mem_admin 0) small_platform)) ''todos'') \<le> 50
   \<and> colls shadow_platform ''todos'' ! 0 =
        (''u1'', [''id'' \<mapsto> JStr ''zzz'', ''name'' \<mapsto> JStr ''Ann''])
   \<and> [''id'' \<mapsto> JStr ''zzz'', ''name'' \<mapsto> JStr ''Ann''] ''id'' = Some (JStr ''zzz'')
   \<and> field (listed (fst (get_todos (mem_admin 0) shadow_platform)) ''todos'' ! 0) ''id''
        = Some (JStr ''zzz'')"
proof -
  let ?u = "get_users (mem_admin 0) small_platform"
  let ?t = "get_todos (mem_admin 0) small_platform"
  have runu: "?u = (fst ?u, snd ?u)" and runt: "?t = (fst ?t, snd ?t)"
    by (rule surjective_pairing)+
  note r = list_routes [OF runu runt]
  note u = r [THEN conjunct1]
  note t = r [THEN conjunct2]
  have first: "colls small_platform ''users'' ! 0 = (''u1'', ann)"
    by (simp add: small_platform_def)
  have noid: "ann ''id'' = None" and other: "''name'' \<noteq> ''id''"
    by (simp_all add: ann_def)
  have len: "length (listed (fst ?u) ''users'') = min 50 (length (colls small_platform ''users''))"
    by (rule u [THEN conjunct2, THEN conjunct2, THEN conjunct2, THEN conjunct1])
  have pos: "0 < length (listed (fst ?u) ''users'')"
    by (simp only: len) (simp add: small_platform_def)
  note el = u [THEN conjunct2, THEN conjunct2, THEN conjunct2, THEN conjunct2, THEN conjunct2,
               THEN spec, THEN mp, OF pos, THEN spec, THEN spec, THEN mp, OF first]
  have c1: "status (fst ?u) = 200"
    by (rule u [THEN conjunct1])
  have c2: "length (listed (fst ?u) ''users'') \<le> 50"
    by (rule u [THEN conjunct2, THEN conjunct2, THEN conjunct2, THEN conjunct2, THEN conjunct1])
  have c3: "field (listed (fst ?u) ''users'' ! 0) ''id'' = Some (JStr ''u1'')"
    by (rule el [THEN conjunct2, THEN conjunct1, THEN mp, OF noid])
  have c4: "field (listed (fst ?u) ''users'' ! 0) ''name'' = ann ''name''"
    by (rule el [THEN conjunct1, THEN spec, THEN mp, OF other])
  have c5: "status (fst ?t) = 200"
    by (rule t [THEN conjunct1])
  have c6: "length (listed (fst ?t) ''todos'') \<le> 50"
    by (rule t [THEN conjunct2, THEN conjunct2, THEN conjunct2, THEN conjunct2, THEN conjunct1])
  let ?su = "get_users (mem_admin 0) shadow_platform"
  let ?st = "get_todos (mem_admin 0) shadow_platform"
  have srunu: "?su = (fst ?su, snd ?su)" and srunt: "?st = (fst ?st, snd ?st)"
    by (rule surjective_pairing)+
  note st = list_routes [OF srunu srunt, THEN conjunct2]
  have sfirst: "colls shadow_platform ''todos'' ! 0 =
                  (''u1'', [''id'' \<mapsto> JStr ''zzz'', ''name'' \<mapsto> JStr ''Ann''])"
    by (simp add: shadow_platform_def)
  have own: "[''id'' \<mapsto> JStr ''zzz'', ''name'' \<mapsto> JStr ''Ann''] ''id'' = Some (JStr ''zzz'')"
    by simp
  have slen: "length (listed (fst ?st) ''todos'') = min 50 (length (colls shadow_platform ''todos''))"
    by (rule st [THEN conjunct2, THEN conjunct2, THEN conjunct2, THEN conjunct1])
  have spos: "0 < length (listed (fst ?st) ''todos'')"
    by (simp only: slen) (simp add: shadow_platform_def)
  note sel = st [THEN conjunct2, THEN conjunct2, THEN conjunct2, THEN conjunct2, THEN conjunct2,
                 THEN spec, THEN mp, OF spos, THEN spec, THEN spec, THEN mp, OF sfirst]
  have c7: "field (listed (fst ?st) ''todos'' ! 0) ''id'' = Some (JStr ''zzz'')"
    by (rule sel [THEN conjunct2, THEN conjunct2, THEN spec, THEN mp, OF own])
  show ?thesis
    by (rule conjI [OF c1 conjI [OF c2 conjI [OF first conjI [OF noid conjI [OF c3 conjI [OF c4
          conjI [OF c5 conjI [OF c6 conjI [OF sfirst conjI [OF own c7]]]]]]]]]])
qed

section \<open>Updating and deleting a todo\<close>

lemma updateData_completed_only:
  assumes "dom b = {''completed''}"
  shows "updateData b = set_if_defined ''completed'' (read_prop b ''completed'')
                          [''updatedAt'' \<mapsto> JServerTimestamp]"
proof -
  have "''title'' \<notin> dom b" and "''description'' \<notin> dom b"
    by (simp_all add: assms)
  then have "b ''title'' = None" and "b ''description'' = None"
    by (simp_all add: domIff)
  then show ?thesis
    by (simp add: updateData_def read_prop_def set_if_defined_def)
qed

lemma resolve_ts_apply: "resolve_ts now d k = map_option (resolve_value now) (d k)"
  by (simp add: resolve_ts_def)

lemma merged_update_frame:
  assumes "dom b = {''completed''}" and "k \<noteq> ''completed''" and "k \<noteq> ''updatedAt''"
  shows "(d ++ resolve_ts now (updateData b)) k = d k"
  using assms(2,3)
  by (simp add: updateData_completed_only [OF assms(1)] set_if_defined_def map_add_def
        resolve_ts_apply)

lemma merged_update_updatedAt:
  assumes "dom b = {''completed''}"
  shows "(d ++ resolve_ts now (updateData b)) ''updatedAt'' = Some (JTimestamp now)"
  by (simp add: updateData_completed_only [OF assms] set_if_defined_def map_add_def
        resolve_ts_apply)

lemma resolve_value_id: "v \<noteq> JServerTimestamp \<Longrightarrow> resolve_value now v = v"
  by (cases v) simp_all

lemma merged_update_completed:
  assumes "dom b = {''completed''}" and "b ''completed'' = Some v"
    and "v \<noteq> JUndefined" and "v \<noteq> JServerTimestamp"
  shows "(d ++ resolve_ts now (updateData b)) ''completed'' = Some v"
proof -
  have "defined v"
    using assms(3) by (cases v) simp_all
  then show ?thesis
    using assms(2,4)
    by (simp add: updateData_completed_only [OF assms(1)] set_if_defined_def map_add_def
          resolve_ts_apply read_prop_def resolve_value_id)
qed

lemma mem_put_present:
  assumes "map_of (colls p ''todos'') i = Some d"
  shows "put_todo (mem_admin now) i b p =
           (json 200 ([''id'' \<mapsto> JStr i] ++ (d ++ resolve_ts now (updateData b))),
            p\<lparr>colls := (colls p)(''todos'' :=
                 AList.update i (d ++ resolve_ts now (updateData b)) (colls p ''todos''))\<rparr>)"
  using assms
  by (simp add: put_todo_def mem_admin_def mem_doc_update_def mem_doc_get_def with_id_present
        update_conv')

text \<open>
  C2. Against the reference store: when the todo exists and the body has the one key
  \<open>completed\<close>, \<^verbatim>\<open>PUT /todos/:id\<close> answers 200 and leaves the document with every field other
  than \<open>completed\<close> and \<open>updatedAt\<close> as it was, \<open>title\<close> and \<open>description\<close> among them;
  \<open>updatedAt\<close> is the time of the write and \<open>completed\<close> the value sent.
\<close>

theorem put_todo_completed_only:
  assumes "map_of (colls p ''todos'') i = Some d" and "dom b = {''completed''}"
    and "put_todo (mem_admin now) i b p = (res, p')"
  shows "status res = 200
       \<and> map_of (colls p' ''todos'') i \<noteq> None
       \<and> stored p' ''todos'' i ''title'' = d ''title''
       \<and> stored p' ''todos'' i ''description'' = d ''description''
       \<and> (\<forall>k. k \<noteq> ''completed'' \<and> k \<noteq> ''updatedAt'' \<longrightarrow> stored p' ''todos'' i k = d k)
       \<and> stored p' ''todos'' i ''updatedAt'' = Some (JTimestamp now)
       \<and> (\<forall>v. b ''completed'' = Some v \<and> v \<noteq> JUndefined \<and> v \<noteq> JServerTimestamp \<longrightarrow>
              stored p' ''todos'' i ''completed'' = Some v)"
proof -
  let ?d' = "d ++ resolve_ts now (updateData b)"
  from mem_put_present [OF assms(1), of now b] assms(3)
  have res: "res = json 200 ([''id'' \<mapsto> JStr i] ++ ?d')"
    and p': "p' = p\<lparr>colls := (colls p)(''todos'' := AList.update i ?d' (colls p ''todos''))\<rparr>"
    by simp_all
  have look: "map_of (colls p' ''todos'') i = Some ?d'"
    by (simp add: p' update_conv')
  have st: "stored p' ''todos'' i k = ?d' k" for k
    by (simp add: stored_def look)
  have c0: "status res = 200"
    by (simp add: res status_json)
  have c1: "map_of (colls p' ''todos'') i \<noteq> None"
    by (simp add: look)
  have c2: "stored p' ''todos'' i ''title'' = d ''title''"
    by (simp add: st merged_update_frame [OF assms(2)])
  have c3: "stored p' ''todos'' i ''description'' = d ''description''"
    by (simp add: st merged_update_frame [OF assms(2)])
  have c4: "\<forall>k. k \<noteq> ''completed'' \<and> k \<noteq> ''updatedAt'' \<longrightarrow> stored p' ''todos'' i k = d k"
    by (simp add: st merged_update_frame [OF assms(2)])
  have c5: "stored p' ''todos'' i ''updatedAt'' = Some (JTimestamp now)"
    by (simp add: st merged_update_updatedAt [OF assms(2)])
  have c6: "\<forall>v. b ''completed'' = Some v \<and> v \<noteq> JUndefined \<and> v \<noteq> JServerTimestamp \<longrightarrow>
              stored p' ''todos'' i ''completed'' = Some v"
    by (simp add: st merged_update_completed [OF assms(2)])
  show ?thesis
    by (rule conjI [OF c0 conjI [OF c1 conjI [OF c2 conjI [OF c3 conjI [OF c4 conjI [OF c5 c6]]]]]])
qed

theorem put_todo_completed_only_witness:
  "map_of (colls small_platform ''todos'') ''t1'' = Some milk
   \<and> dom [''completed'' \<mapsto> JBool True] = {''completed''}
   \<and> status (fst (put_todo (mem_admin 9) ''t1'' [''completed'' \<mapsto> JBool True] small_platform)) = 200
   \<and> stored (snd (put_todo (mem_admin 9) ''t1'' [''completed'' \<mapsto> JBool True] small_platform))
        ''todos'' ''t1'' ''title'' = milk ''title''
   \<and> stored (snd (put_todo (mem_admin 9) ''t1'' [''completed'' \<mapsto> JBool True] small_platform))
        ''todos'' ''t1'' ''description'' = milk ''description''
   \<and> stored (snd (put_todo (mem_admin 9) ''t1'' [''completed'' \<mapsto> JBool True] small_platform))
        ''todos'' ''t1'' ''createdAt'' = milk ''createdAt''
   \<and> stored (snd (put_todo (mem_admin 9) ''t1'' [''completed'' \<mapsto> JBool True] small_platform))
        ''todos'' ''t1'' ''updatedAt'' = Some (JTimestamp 9)
   \<and> stored (snd (put_todo (mem_admin 9) ''t1'' [''completed'' \<mapsto> JBool True] small_platform))
        ''todos'' ''t1'' ''completed'' = Some (JBool True)"
proof -
  let ?b = "[''completed'' \<mapsto> JBool True]"
  let ?run = "put_todo (mem_admin 9) ''t1'' ?b small_platform"
  have h1: "map_of (colls small_platform ''todos'') ''t1'' = Some milk"
    by (simp add: small_platform_def)
  have h2: "dom ?b = {''completed''}"
    by simp
  have h3: "?run = (fst ?run, snd ?run)"
    by (rule surjective_pairing)
  have other: "''createdAt'' \<noteq> ''completed'' \<and> ''createdAt'' \<noteq> ''updatedAt''"
    and sent: "?b ''completed'' = Some (JBool True) \<and> JBool True \<noteq> JUndefined
               \<and> JBool True \<noteq> JServerTimestamp"
    by simp_all
  note t = put_todo_completed_only [OF h1 h2 h3]
  have c0: "status (fst ?run) = 200"
    by (rule t [THEN conjunct1])
  have c2: "stored (snd ?run) ''todos'' ''t1'' ''title'' = milk ''title''"
    by (rule t [THEN conjunct2, THEN conjunct2, THEN conjunct1])
  have c3: "stored (snd ?run) ''todos'' ''t1'' ''description'' = milk ''description''"
    by (rule t [THEN conjunct2, THEN conjunct2, THEN conjunct2, THEN conjunct1])
  have c4: "stored (snd ?run) ''todos'' ''t1'' ''createdAt'' = milk ''createdAt''"
    by (rule t [THEN conjunct2, THEN conjunct2, THEN conjunct2, THEN conjunct2, THEN conjunct1,
                THEN spec, THEN mp, OF other])
  have c5: "stored (snd ?run) ''todos'' ''t1'' ''updatedAt'' = Some (JTimestamp 9)"
    by (rule t [THEN conjunct2, THEN conjunct2, THEN conjunct2, THEN conjunct2, THEN conjunct2,
                THEN conjunct1])
  have c6: "stored (snd ?run) ''todos'' ''t1'' ''completed'' = Some (JBool True)"
    by (rule t [THEN conjunct2, THEN conjunct2, THEN conjunct2, THEN conjunct2, THEN conjunct2,
                THEN conjunct2, THEN spec, THEN mp, OF sent])
  show ?thesis
    by (rule conjI [OF h1 conjI [OF h2 conjI [OF c0 conjI [OF c2 conjI [OF c3 conjI [OF c4
          conjI [OF c5 c6]]]]]]])
qed

lemma delete_todo_outcomes:
  "fst (delete_todo sdk i w) =
      \<lparr>status = 200, body = JObj [''message'' \<mapsto> JStr ''Todo deleted successfully'']\<rparr>
   \<or> (\<exists>msg. fst (delete_todo sdk i w) = \<lparr>status = 500, body = JObj [''error'' \<mapsto> JStr msg]\<rparr>)"
proof (cases "fs_doc_delete sdk ''todos'' i w")
  case (Pair r w')
  show ?thesis
  proof (cases r)
    case (Inl msg)
    with Pair
    have "fst (delete_todo sdk i w) = \<lparr>status = 500, body = JObj [''error'' \<mapsto> JStr msg]\<rparr>"
      by (simp add: delete_todo_def json_def error_body_def)
    then show ?thesis
      by (rule disjI2 [OF exI])
  next
    case (Inr u)
    with Pair show ?thesis
      by (simp add: delete_todo_def json_def)
  qed
qed

lemma mem_delete_todo:
  "delete_todo (mem_admin now) i p =
     (\<lparr>status = 200, body = JObj [''message'' \<mapsto> JStr ''Todo deleted successfully'']\<rparr>,
      p\<lparr>colls := (colls p)(''todos'' := AList.delete i (colls p ''todos''))\<rparr>)"
  by (simp add: delete_todo_def mem_admin_def mem_doc_delete_def json_def)

lemma delete_absent:
  assumes "map_of (colls p c) i = None"
  shows "p\<lparr>colls := (colls p)(c := AList.delete i (colls p c))\<rparr> = p"
proof -
  have "i \<notin> fst ` set (colls p c)"
    using assms by (simp add: map_of_eq_None_iff)
  then show ?thesis
    by simp
qed

lemma deleted_is_absent:
  "map_of (colls (p\<lparr>colls := (colls p)(c := AList.delete i (colls p c))\<rparr>) c) i = None"
  by (simp add: delete_conv')

text \<open>
  C6. Whatever the client, \<^verbatim>\<open>DELETE /todos/:id\<close> ends in one of two responses: 200 with the
  confirmation message, or 500 with the message of the exception the client raised; no
  other outcome exists. Against the reference store, deleting an identifier that has no
  document answers 200 and leaves the store as it is, so a second delete of the same
  identifier answers 200 and the store after it is the store after the first.
\<close>

theorem delete_todo_repeated:
  "(fst (delete_todo sdk i w) =
        \<lparr>status = 200, body = JObj [''message'' \<mapsto> JStr ''Todo deleted successfully'']\<rparr>
     \<or> (\<exists>msg. fst (delete_todo sdk i w) = \<lparr>status = 500, body = JObj [''error'' \<mapsto> JStr msg]\<rparr>))
   \<and> (map_of (colls p ''todos'') i = None \<longrightarrow>
        delete_todo (mem_admin now) i p =
          (\<lparr>status = 200, body = JObj [''message'' \<mapsto> JStr ''Todo deleted successfully'']\<rparr>, p))
   \<and> delete_todo (mem_admin later) i (snd (delete_todo (mem_admin now) i p)) =
        (\<lparr>status = 200, body = JObj [''message'' \<mapsto> JStr ''Todo deleted successfully'']\<rparr>,
         snd (delete_todo (mem_admin now) i p))"
proof -
  have c2: "map_of (colls p ''todos'') i = None \<longrightarrow>
        delete_todo (mem_admin now) i p =
          (\<lparr>status = 200, body = JObj [''message'' \<mapsto> JStr ''Todo deleted successfully'']\<rparr>, p)"
    by (simp add: mem_delete_todo delete_absent)
  let ?p1 = "p\<lparr>colls := (colls p)(''todos'' := AList.delete i (colls p ''todos''))\<rparr>"
  have first: "snd (delete_todo (mem_admin now) i p) = ?p1"
    by (simp add: mem_delete_todo)
  have "delete_todo (mem_admin later) i ?p1 =
          (\<lparr>status = 200, body = JObj [''message'' \<mapsto> JStr ''Todo deleted successfully'']\<rparr>, ?p1)"
    by (simp only: mem_delete_todo [of later i ?p1] delete_absent [OF deleted_is_absent])
  then have c3: "delete_todo (mem_admin later) i (snd (delete_todo (mem_admin now) i p)) =
        (\<lparr>status = 200, body = JObj [''message'' \<mapsto> JStr ''Todo deleted successfully'']\<rparr>,
         snd (delete_todo (mem_admin now) i p))"
    by (simp only: first)
  show ?thesis
    by (rule conjI [OF delete_todo_outcomes conjI [OF c2 c3]])
qed

theorem delete_todo_repeated_witness:
  "map_of (colls small_platform ''todos'') ''t9'' = None
   \<and> delete_todo (mem_admin 4) ''t9'' small_platform =
       (\<lparr>status = 200, body = JObj [''message'' \<mapsto> JStr ''Todo deleted successfully'']\<rparr>,
        small_platform)
   \<and> delete_todo (mem_admin 5) ''t1'' (snd (delete_todo (mem_admin 4) ''t1'' small_platform)) =
       (\<lparr>status = 200, body = JObj [''message'' \<mapsto> JStr ''Todo deleted successfully'']\<rparr>,
        snd (delete_todo (mem_admin 4) ''t1'' small_platform))
   \<and> map_of (colls small_platform ''todos'') ''t1'' = Some milk
   \<and> map_of (colls (snd (delete_todo (mem_admin 4) ''t1'' small_platform)) ''todos'') ''t1'' = None"
proof -
  have a: "map_of (colls small_platform ''todos'') ''t9'' = None"
    and b: "map_of (colls small_platform ''todos'') ''t1'' = Some milk"
    by (simp_all add: small_platform_def)
  have gone: "map_of (colls (snd (delete_todo (mem_admin 4) ''t1'' small_platform)) ''todos'') ''t1''
                = None"
    by (simp only: mem_delete_todo snd_conv deleted_is_absent)
  note t9 = delete_todo_repeated [where p = small_platform and i = "''t9''" and now = 4]
  note t1 = delete_todo_repeated [where p = small_platform and i = "''t1''" and now = 4
                                    and later = 5]
  have c1: "delete_todo (mem_admin 4) ''t9'' small_platform =
       (\<lparr>status = 200, body = JObj [''message'' \<mapsto> JStr ''Todo deleted successfully'']\<rparr>,
        small_platform)"
    by (rule t9 [THEN conjunct2, THEN conjunct1, THEN mp, OF a])
  have c2: "delete_todo (mem_admin 5) ''t1'' (snd (delete_todo (mem_admin 4) ''t1'' small_platform)) =
       (\<lparr>status = 200, body = JObj [''message'' \<mapsto> JStr ''Todo deleted successfully'']\<rparr>,
        snd (delete_todo (mem_admin 4) ''t1'' small_platform))"
    by (rule t1 [THEN conjunct2, THEN conjunct2])
  show ?thesis
    by (rule conjI [OF a conjI [OF c1 conjI [OF c2 conjI [OF b gone]]]])
qed

end
